theory Spec2Isabelle
  imports Main
begin

section \<open>The loader of packages/resolve-url-loader/index.js\<close>

subsection \<open>JavaScript values\<close>

text \<open>
  Option values are dynamically typed in the source: the loader tests them with
  \<^verbatim>\<open>typeof\<close>, \<^verbatim>\<open>===\<close> and for truthiness. Numbers are modelled as integers and a
  function by an identifier, so that \<^verbatim>\<open>===\<close> on functions is equality of identifiers.
\<close>

datatype jsval =
    JUndefined
  | JNull
  | JBool bool
  | JNum int
  | JStr string
  | JObject
  | JFunction nat

fun truthy :: "jsval \<Rightarrow> bool" where
  "truthy JUndefined = False"
| "truthy JNull = False"
| "truthy (JBool b) = b"
| "truthy (JNum n) = (n \<noteq> 0)"
| "truthy (JStr s) = (s \<noteq> [])"
| "truthy JObject = True"
| "truthy (JFunction f) = True"

fun is_function :: "jsval \<Rightarrow> bool" where
  "is_function (JFunction f) = True"
| "is_function v = False"

text \<open>The function exported by \<^verbatim>\<open>./lib/default-join\<close>.\<close>

definition defaultJoin :: jsval where
  "defaultJoin = JFunction 0"

text \<open>
  A value that is thrown, or that rejects a promise, and also the second argument of
  \<^verbatim>\<open>handleException\<close>: a string, an instance of \<^verbatim>\<open>Error\<close> with its message and
  its stack (\<open>None\<close> when the stack is not a string), \<^verbatim>\<open>undefined\<close> or \<^verbatim>\<open>null\<close>,
  an object that is no \<^verbatim>\<open>Error\<close> and has a string as its \<^verbatim>\<open>message\<close>, or any other
  value (one whose \<^verbatim>\<open>message\<close> is not a string).
\<close>

datatype jsexn =
    ExString string
  | ExError string "string option"
  | ExNullish
  | ExMessage string
  | ExOther

text \<open>The \<^verbatim>\<open>TypeError\<close> that reading a property of \<^verbatim>\<open>undefined\<close> raises.\<close>

definition TypeError :: jsexn where
  "TypeError = ExError ''TypeError: Cannot read property of undefined'' None"

subsection \<open>Strings\<close>

definition newline :: char where
  "newline = CHR 0x0A"

text \<open>\<^verbatim>\<open>s.split(c)\<close> for a one-character separator: never the empty list.\<close>

fun split :: "char \<Rightarrow> string \<Rightarrow> string list" where
  "split c [] = [[]]"
| "split c (x # xs) =
     (if x = c then [] # split c xs
      else (case split c xs of [] \<Rightarrow> [[x]] | y # ys \<Rightarrow> (x # y) # ys))"

definition is_space :: "char \<Rightarrow> bool" where
  "is_space c \<longleftrightarrow> c \<in> set [CHR 0x09, CHR 0x0A, CHR 0x0B, CHR 0x0C, CHR 0x0D, CHR 0x20, CHR 0xA0]"

definition trim :: "string \<Rightarrow> string" where
  "trim s = rev (dropWhile is_space (rev (dropWhile is_space s)))"

text \<open>\<^verbatim>\<open>xs.join(sep)\<close>.\<close>

fun join_with :: "string \<Rightarrow> string list \<Rightarrow> string" where
  "join_with sep [] = []"
| "join_with sep [x] = x"
| "join_with sep (x # y # ys) = x @ sep @ join_with sep (y # ys)"

text \<open>\<^verbatim>\<open>/^\<close>\<^verbatim>\<open>\./.test(s)\<close>.\<close>

fun starts_with_dot :: "string \<Rightarrow> bool" where
  "starts_with_dot [] = False"
| "starts_with_dot (c # cs) = (c = CHR ''.'')"

definition is_word_char :: "char \<Rightarrow> bool" where
  "is_word_char c \<longleftrightarrow>
     (let n = (of_char c :: nat) in
        (97 \<le> n \<and> n \<le> 122) \<or> (65 \<le> n \<and> n \<le> 90) \<or> (48 \<le> n \<and> n \<le> 57) \<or> n = 95)"

text \<open>\<^verbatim>\<open>/^\<close>\<^verbatim>\<open>\w+/.test(s)\<close>: the string begins with a word character.\<close>

fun starts_with_word :: "string \<Rightarrow> bool" where
  "starts_with_word [] = False"
| "starts_with_word (c # cs) = is_word_char c"

subsection \<open>Options, loader context, diagnostics\<close>

text \<open>
  The object \<^verbatim>\<open>options\<close> of lines 42 to 58, after \<^verbatim>\<open>defaults\<close> has merged the
  loader's query, the legacy options object and the table of defaults. The engine name is
  taken as a string, the only type the code gives a meaning to; every other option keeps
  its dynamic type.
\<close>

record options =
  absolute :: jsval
  sourceMap :: jsval
  engine :: string
  fail :: jsval
  silent :: jsval
  keepQuery :: jsval
  attempts :: jsval
  join :: jsval
  debug :: jsval
  root :: jsval
  includeRoot :: jsval

text \<open>The table of defaults (lines 45 to 57); its argument is \<^verbatim>\<open>loader.sourceMap\<close>.\<close>

definition default_options :: "jsval \<Rightarrow> options" where
  "default_options loader_sourceMap =
     \<lparr> absolute = JBool False,
       sourceMap = loader_sourceMap,
       engine = ''rework'',
       fail = JBool False,
       silent = JBool False,
       keepQuery = JBool False,
       attempts = JNum 1,
       join = defaultJoin,
       debug = JBool False,
       root = JNull,
       includeRoot = JBool False \<rparr>"

record loader =
  loader_context :: string
  resourcePath :: string

datatype diagnostic = Error string | Warning string

text \<open>The source-map argument: absent, a string, or an object.\<close>

datatype 'm source_map_arg = SmAbsent | SmString string | SmObject 'm

fun sm_truthy :: "'m source_map_arg \<Rightarrow> bool" where
  "sm_truthy SmAbsent = False"
| "sm_truthy (SmString s) = (s \<noteq> [])"
| "sm_truthy (SmObject m) = True"

datatype format = Absolute | SourceRelative

text \<open>What the engine gets as its third argument, and what it answers.\<close>

record ('m, 'c, 't) engine_params =
  outputSourceMap :: bool
  transformDeclaration :: 't
  absSourceMap :: "'m option"
  sourceMapConsumer :: "'c option"

record 'm reworked =
  reworked_content :: string
  reworked_map :: 'm

text \<open>
  The call \<^verbatim>\<open>require(enginePath)(...)\<close> throws, or its value resolves the promise
  of \<^verbatim>\<open>Promise.resolve\<close>, or it is a promise that rejects.
\<close>

datatype 'm engine_result =
    EngineThrows jsexn
  | EngineResolves "'m reworked"
  | EngineRejects jsexn

text \<open>
  Everything outside the file: \<^verbatim>\<open>path\<close>, \<^verbatim>\<open>fs\<close>, \<^verbatim>\<open>JSON\<close>, the codec of
  adjust-sourcemap-loader, the constructor of \<^verbatim>\<open>SourceMapConsumer\<close>, the value
  processor and the engine modules. A function that can throw returns a sum.
\<close>

record ('m, 'c, 't) env =
  path_resolve :: "string \<Rightarrow> string"
  path_join :: "string list \<Rightarrow> string"
  dirname :: string
  fs_existsSync :: "string \<Rightarrow> bool"
  fs_isDirectory :: "string \<Rightarrow> bool"
  JSON_parse :: "string \<Rightarrow> 'm option"
  adjustSourceMap :: "loader \<Rightarrow> format \<Rightarrow> 'm \<Rightarrow> jsexn + 'm"
  SourceMapConsumer :: "'m \<Rightarrow> jsexn + 'c"
  valueProcessor :: "string \<Rightarrow> options \<Rightarrow> jsexn + 't"
  require_engine :: "string \<Rightarrow> string \<Rightarrow> string \<Rightarrow> ('m, 'c, 't) engine_params \<Rightarrow> 'm engine_result"

text \<open>
  How one call ends: the loader returns a string, or it delivers content (and perhaps a
  map) through the asynchronous callback, or an exception leaves the function, or the
  promise chain ends rejected with nobody listening and the callback is never called.
\<close>

datatype 'm completion =
    Returned string
  | Delivered string "'m option"
  | Thrown jsexn
  | Unhandled jsexn

record 'm outcome =
  emitted :: "diagnostic list"
  cacheable :: bool
  completion :: "'m completion"

subsection \<open>handleException (lines 149 to 161)\<close>

text \<open>Lines 150 to 152. Element 1 of the split stack is \<^verbatim>\<open>undefined\<close> for a one-line stack.\<close>

fun exception_rest :: "jsexn \<Rightarrow> jsexn + string list" where
  "exception_rest (ExString s) = Inr [s]"
| "exception_rest (ExError msg stack) =
     (case stack of
        None \<Rightarrow> Inl TypeError
      | Some st \<Rightarrow>
          (case split newline st of
             l0 # l1 # ls \<Rightarrow> Inr [msg, trim l1]
           | _ \<Rightarrow> Inl TypeError))"
| "exception_rest ExNullish = Inr []"
| "exception_rest (ExMessage msg) = Inr []"
| "exception_rest ExOther = Inr []"

definition format_message :: "string \<Rightarrow> string list \<Rightarrow> string" where
  "format_message label rest =
     ''  resolve-url-loader cannot operate: '' @
       join_with (newline # ''  '') (filter (\<lambda>s. s \<noteq> []) (label # rest))"

text \<open>
  \<open>opts\<close> is \<open>None\<close> while the variable \<^verbatim>\<open>options\<close> is still \<^verbatim>\<open>undefined\<close> (line 35).
  The result is the diagnostics pushed and the string returned, or what was thrown.
\<close>

definition handleException ::
  "options option \<Rightarrow> string \<Rightarrow> string \<Rightarrow> jsexn \<Rightarrow> bool \<Rightarrow> jsexn + (diagnostic list \<times> string)" where
  "handleException opts content label exception isCritical =
     (case exception_rest exception of
        Inl e \<Rightarrow> Inl e
      | Inr rest \<Rightarrow>
          (let message = format_message label rest in
           if isCritical then Inr ([Error message], content)
           else (case opts of
                   None \<Rightarrow> Inl TypeError
                 | Some options \<Rightarrow>
                     if truthy (fail options) then Inr ([Error message], content)
                     else if \<not> truthy (silent options) then Inr ([Warning message], content)
                     else Inr ([], content))))"

text \<open>\<^verbatim>\<open>return handleException(...)\<close>.\<close>

definition returning :: "bool \<Rightarrow> jsexn + (diagnostic list \<times> string) \<Rightarrow> 'm outcome" where
  "returning c r =
     (case r of
        Inl e \<Rightarrow> \<lparr> emitted = [], cacheable = c, completion = Thrown e \<rparr>
      | Inr (ds, s) \<Rightarrow> \<lparr> emitted = ds, cacheable = c, completion = Returned s \<rparr>)"

subsection \<open>The checks of the configuration\<close>

text \<open>Line 61.\<close>

definition attempts_discontinued :: "options \<Rightarrow> bool" where
  "attempts_discontinued options \<longleftrightarrow> join options = defaultJoin \<and> attempts options \<noteq> JNum 1"

text \<open>Lines 71 and 72.\<close>

definition resolvedRoot :: "('m, 'c, 't) env \<Rightarrow> options \<Rightarrow> string option" where
  "resolvedRoot env options =
     (case root options of
        JStr s \<Rightarrow> (if path_resolve env s \<noteq> [] then Some (path_resolve env s) else None)
      | _ \<Rightarrow> None)"

definition isValidRoot :: "('m, 'c, 't) env \<Rightarrow> options \<Rightarrow> bool" where
  "isValidRoot env options =
     (case resolvedRoot env options of
        None \<Rightarrow> False
      | Some p \<Rightarrow> fs_existsSync env p \<and> fs_isDirectory env p)"

text \<open>Lines 108 and 109; \<^verbatim>\<open>fs.existsSync(false)\<close> is \<^verbatim>\<open>false\<close>.\<close>

definition enginePath :: "('m, 'c, 't) env \<Rightarrow> options \<Rightarrow> string option" where
  "enginePath env options =
     (if starts_with_word (engine options)
      then Some (path_join env [dirname env, ''lib'', ''engine'', engine options @ ''.js''])
      else None)"

definition isValidEngine :: "('m, 'c, 't) env \<Rightarrow> options \<Rightarrow> bool" where
  "isValidEngine env options =
     (case enginePath env options of None \<Rightarrow> False | Some p \<Rightarrow> fs_existsSync env p)"

subsection \<open>The incoming source-map (lines 81 to 105)\<close>

datatype ('m, 'c) map_stage =
    MapFailed "jsexn + (diagnostic list \<times> string)"
  | MapThrown jsexn
  | MapReady "'m option" "'c option"

text \<open>
  \<^verbatim>\<open>exception.message\<close> of line 100, as the second argument of \<^verbatim>\<open>handleException\<close>:
  the message of an error or of an object that has one, \<^verbatim>\<open>undefined\<close> for a string, a
  value that \<^verbatim>\<open>handleException\<close> treats as it treats \<^verbatim>\<open>undefined\<close> for any other
  value, and a \<^verbatim>\<open>TypeError\<close> when what was thrown is \<^verbatim>\<open>undefined\<close> or \<^verbatim>\<open>null\<close>.
\<close>

fun exception_message :: "jsexn \<Rightarrow> jsexn + jsexn" where
  "exception_message (ExString s) = Inr ExNullish"
| "exception_message (ExError msg stack) = Inr (ExString msg)"
| "exception_message ExNullish = Inl TypeError"
| "exception_message (ExMessage msg) = Inr (ExString msg)"
| "exception_message ExOther = Inr ExOther"

text \<open>
  Lines 94 to 104: the codec is guarded by a \<^verbatim>\<open>try\<close>, the constructor of the index is
  not, and neither is the \<^verbatim>\<open>catch\<close> block itself.
\<close>

definition indexSourceMap ::
  "('m, 'c, 't) env \<Rightarrow> loader \<Rightarrow> options \<Rightarrow> string \<Rightarrow> 'm \<Rightarrow> ('m, 'c) map_stage" where
  "indexSourceMap env loader options content m =
     (case adjustSourceMap env loader Absolute m of
        Inl exception \<Rightarrow>
          (case exception_message exception of
             Inl e \<Rightarrow> MapThrown e
           | Inr message \<Rightarrow>
               MapFailed (handleException (Some options) content ''source-map error'' message False))
      | Inr absMap \<Rightarrow>
          (case SourceMapConsumer env absMap of
             Inl e \<Rightarrow> MapThrown e
           | Inr consumer \<Rightarrow> MapReady (Some absMap) (Some consumer)))"

definition loadSourceMap ::
  "('m, 'c, 't) env \<Rightarrow> loader \<Rightarrow> options \<Rightarrow> string \<Rightarrow> 'm source_map_arg \<Rightarrow> ('m, 'c) map_stage" where
  "loadSourceMap env loader options content sourceMapIn =
     (if sm_truthy sourceMapIn then
        (case sourceMapIn of
           SmString s \<Rightarrow>
             (case JSON_parse env s of
                None \<Rightarrow>
                  MapFailed (handleException (Some options) content ''source-map error''
                    (ExString ''cannot parse source-map string (from less-loader?)'') False)
              | Some m \<Rightarrow> indexSourceMap env loader options content m)
         | SmObject m \<Rightarrow> indexSourceMap env loader options content m
         | SmAbsent \<Rightarrow> MapReady None None)
      else MapReady None None)"

subsection \<open>The asynchronous part (lines 114 to 140)\<close>

definition onFailure :: "options \<Rightarrow> string \<Rightarrow> jsexn \<Rightarrow> 'm outcome" where
  "onFailure options content error =
     (case handleException (Some options) content ''Error in CSS'' error False of
        Inl e \<Rightarrow> \<lparr> emitted = [], cacheable = True, completion = Unhandled e \<rparr>
      | Inr (ds, s) \<Rightarrow> \<lparr> emitted = ds, cacheable = True, completion = Delivered s None \<rparr>)"

text \<open>An exception inside \<^verbatim>\<open>onSuccess\<close> rejects the promise that \<^verbatim>\<open>onFailure\<close> catches.\<close>

definition onSuccess ::
  "('m, 'c, 't) env \<Rightarrow> loader \<Rightarrow> options \<Rightarrow> string \<Rightarrow> 'm reworked \<Rightarrow> 'm outcome" where
  "onSuccess env loader options content reworked =
     (if truthy (sourceMap options) then
        (case adjustSourceMap env loader SourceRelative (reworked_map reworked) of
           Inl e \<Rightarrow> onFailure options content e
         | Inr finalMap \<Rightarrow>
             \<lparr> emitted = [], cacheable = True,
               completion = Delivered (reworked_content reworked) (Some finalMap) \<rparr>)
      else
        \<lparr> emitted = [], cacheable = True,
          completion = Delivered (reworked_content reworked) None \<rparr>)"

text \<open>
  Lines 115 to 124. The arguments of the engine are evaluated, and the engine is called,
  before \<^verbatim>\<open>Promise.resolve\<close> is: what they throw leaves the loader.
\<close>

definition processAsync ::
  "('m, 'c, 't) env \<Rightarrow> loader \<Rightarrow> options \<Rightarrow> string \<Rightarrow> string \<Rightarrow> 'm option \<Rightarrow> 'c option \<Rightarrow> 'm outcome" where
  "processAsync env loader options content path absMap consumer =
     (case valueProcessor env (loader_context loader) options of
        Inl e \<Rightarrow> \<lparr> emitted = [], cacheable = True, completion = Thrown e \<rparr>
      | Inr transform \<Rightarrow>
          (case require_engine env path (resourcePath loader) content
                  \<lparr> outputSourceMap = truthy (sourceMap options),
                    transformDeclaration = transform,
                    absSourceMap = absMap,
                    sourceMapConsumer = consumer \<rparr> of
             EngineThrows e \<Rightarrow> \<lparr> emitted = [], cacheable = True, completion = Thrown e \<rparr>
           | EngineResolves reworked \<Rightarrow> onSuccess env loader options content reworked
           | EngineRejects error \<Rightarrow> onFailure options content error))"

subsection \<open>resolveUrlLoader (lines 27 to 124)\<close>

definition resolveUrlLoader ::
  "('m, 'c, 't) env \<Rightarrow> loader \<Rightarrow> options \<Rightarrow> string \<Rightarrow> 'm source_map_arg \<Rightarrow> 'm outcome" where
  \<open>resolveUrlLoader env loader options content sourceMapIn =
     (if starts_with_dot (loader_context loader) then
        returning False (handleException None content ''webpack misconfiguration''
          (ExString ''loader.context is relative, expected absolute'') True)
      else if attempts_discontinued options then
        returning False (handleException (Some options) content ''loader misconfiguration''
          (ExString ''"attempts" option now requires "join" function'') True)
      else if \<not> is_function (join options) then
        returning False (handleException (Some options) content ''loader misconfiguration''
          (ExString ''"join" option must be a Function'') True)
      else if truthy (root options) \<and> \<not> isValidRoot env options then
        returning False (handleException (Some options) content ''loader misconfiguration''
          (ExString ''"root" option does not resolve to a valid directory'') True)
      else
        (case loadSourceMap env loader options content sourceMapIn of
           MapFailed r \<Rightarrow> returning True r
         | MapThrown e \<Rightarrow> \<lparr> emitted = [], cacheable = True, completion = Thrown e \<rparr>
         | MapReady absMap consumer \<Rightarrow>
             (case enginePath env options of
                Some path \<Rightarrow>
                  if fs_existsSync env path
                  then processAsync env loader options content path absMap consumer
                  else returning True (handleException (Some options) content
                         ''loader misconfiguration'' (ExString ''"engine" option is not valid'') True)
              | None \<Rightarrow>
                  returning True (handleException (Some options) content
                    ''loader misconfiguration'' (ExString ''"engine" option is not valid'') True))))\<close>

section \<open>The resolution core, from the specification\<close>

text \<open>
  The files \<^verbatim>\<open>lib/value-processor.js\<close>, \<^verbatim>\<open>lib/default-join.js\<close> and
  \<^verbatim>\<open>lib/engine/*.js\<close> are not among the sources. The definitions of this section
  follow sections 3, 4.2 and 4.3 of the specification instead.
\<close>

subsection \<open>Data model (section 3)\<close>

text \<open>Modelled from the spec: Position, a 1-based line and a 0-based column in the
  generated CSS text (the type is declared in the missing \<^verbatim>\<open>lib\<close> files).\<close>

record Position =
  line :: nat
  column :: nat

text \<open>Modelled from the spec: OriginalLocation, the absolute file path, line and column
  that a look-up in the source-map recovers.\<close>

record OriginalLocation =
  absoluteFilePath :: string
  originalLine :: nat
  originalColumn :: nat

text \<open>Modelled from the spec: SourceMapping, a function from Position to OriginalLocation
  or absent; the missing Source-Map Index of section 4.1 is its \<open>locate\<close>.\<close>

type_synonym SourceMapping = "Position \<Rightarrow> OriginalLocation option"

text \<open>Modelled from the spec: UrlToken, one path literal found inside a \<^verbatim>\<open>url(...)\<close>
  of a declaration value, with its offsets in that value.\<close>

record UrlToken =
  rawText :: string
  startOffset :: nat
  endOffset :: nat
  quoted :: bool

text \<open>Modelled from the spec: ResolutionContext, the configuration of one document. The
  join strategy gets the original directory, the path of the token and the candidates and
  answers a path, or \<open>None\<close> when it throws or has no usable path. The relativization of
  step 4 of section 4.2 is external and is a field too.\<close>

record ResolutionContext =
  contextDirectory :: string
  rootDirectory :: "string option"
  includeRootDirectory :: bool
  keepQuerySuffix :: bool
  emitAbsolute :: bool
  joinStrategy :: "string \<Rightarrow> string \<Rightarrow> string list \<Rightarrow> string option"
  relativize :: "string \<Rightarrow> string"

text \<open>Modelled from the spec: the answer of the Path Resolver, ResolvedPath or Unresolved.\<close>

datatype resolution = ResolvedPath string | Unresolved

text \<open>Modelled from the spec: the per-declaration soft failures of section 7, no mapping
  found while a map exists, and a resolver that answers Unresolved.\<close>

datatype soft_failure = NotMapped Position | NotResolved string

subsection \<open>Path Resolver (section 4.2)\<close>

text \<open>Modelled from the spec: the letters that can begin a protocol scheme (the missing
  value processor decides what a scheme is).\<close>

definition is_letter :: "char \<Rightarrow> bool" where
  "is_letter c \<longleftrightarrow>
     (let n = (of_char c :: nat) in (97 \<le> n \<and> n \<le> 122) \<or> (65 \<le> n \<and> n \<le> 90))"

text \<open>Modelled from the spec: the characters of a protocol scheme after its first letter.\<close>

definition is_scheme_char :: "char \<Rightarrow> bool" where
  "is_scheme_char c \<longleftrightarrow>
     is_letter c \<or> (let n = (of_char c :: nat) in 48 \<le> n \<and> n \<le> 57) \<or>
     c = CHR ''+'' \<or> c = CHR ''-'' \<or> c = CHR ''.''"

text \<open>Modelled from the spec: step 1 of the missing Path Resolver, "an absolute URL (has a
  protocol scheme, e.g. \<^verbatim>\<open>data:\<close>, \<^verbatim>\<open>http:\<close>, \<^verbatim>\<open>//\<close>)": the text begins with
  two slashes, or with a scheme and a colon.\<close>

definition isAbsoluteUrl :: "string \<Rightarrow> bool" where
  "isAbsoluteUrl s \<longleftrightarrow>
     take 2 s = ''//'' \<or>
     (case s of
        [] \<Rightarrow> False
      | c # cs \<Rightarrow>
          is_letter c \<and>
          (case dropWhile is_scheme_char cs of [] \<Rightarrow> False | d # ds \<Rightarrow> d = CHR '':''))"

text \<open>Modelled from the spec: step 1 of the missing Path Resolver, "an absolute filesystem
  path already": the text begins with a slash.\<close>

definition isAbsolutePath :: "string \<Rightarrow> bool" where
  "isAbsolutePath s \<longleftrightarrow> (case s of [] \<Rightarrow> False | c # cs \<Rightarrow> c = CHR ''/'')"

text \<open>Modelled from the spec: where the \<^verbatim>\<open>?...\<close> or \<^verbatim>\<open>#...\<close> suffix of step 5 of the
  missing Path Resolver begins.\<close>

definition is_suffix_start :: "char \<Rightarrow> bool" where
  "is_suffix_start c \<longleftrightarrow> c = CHR ''?'' \<or> c = CHR ''#''"

text \<open>Modelled from the spec: the naive join of step 2 of the missing Path Resolver.\<close>

definition naiveJoin :: "string \<Rightarrow> string \<Rightarrow> string" where
  "naiveJoin directory p = directory @ ''/'' @ p"

text \<open>Modelled from the spec: \<open>resolve(originalDirectory, urlToken, context)\<close>, steps 1 to 5
  of section 4.2 (the function is in the missing \<^verbatim>\<open>lib/value-processor.js\<close>).\<close>

definition resolve :: "string \<Rightarrow> UrlToken \<Rightarrow> ResolutionContext \<Rightarrow> resolution" where
  "resolve originalDirectory token ctx =
     (if isAbsoluteUrl (rawText token) \<or> isAbsolutePath (rawText token)
      then ResolvedPath (rawText token)
      else
        (let p = takeWhile (\<lambda>c. \<not> is_suffix_start c) (rawText token);
             suffix = dropWhile (\<lambda>c. \<not> is_suffix_start c) (rawText token);
             candidates =
               naiveJoin originalDirectory p #
               (case rootDirectory ctx of
                  Some r \<Rightarrow> if includeRootDirectory ctx then [naiveJoin r p] else []
                | None \<Rightarrow> [])
         in case joinStrategy ctx originalDirectory p candidates of
              None \<Rightarrow> Unresolved
            | Some joined \<Rightarrow>
                ResolvedPath
                  ((if emitAbsolute ctx then joined else relativize ctx joined) @
                   (if keepQuerySuffix ctx then suffix else []))))"

subsection \<open>Declaration Transformer (section 4.3)\<close>

text \<open>Modelled from the spec: a declaration value cut into the text that stays as it is and
  the \<^verbatim>\<open>url(...)\<close> references, each with the text before its token (\<^verbatim>\<open>url(\<close>,
  whitespace, an opening quote) and the text after it. The missing value processor scans
  with a pattern; the cut is what "rewriting is strictly token-local" needs.\<close>

datatype segment = Plain string | UrlRef string UrlToken string

text \<open>Modelled from the spec: the quotes of a "quoted or unquoted" token.\<close>

definition is_quote :: "char \<Rightarrow> bool" where
  "is_quote c \<longleftrightarrow> c = CHR 0x27 \<or> c = CHR 0x22"

text \<open>Modelled from the spec: the end of a \<^verbatim>\<open>url(...)\<close>, whitespace ("whitespace-tolerant")
  and the closing parenthesis; the result is the text matched.\<close>

definition match_close :: "string \<Rightarrow> string option" where
  "match_close r =
     (case dropWhile is_space r of
        [] \<Rightarrow> None
      | p # rest \<Rightarrow> if p = CHR '')'' then Some (takeWhile is_space r @ '')'') else None)"

text \<open>Modelled from the spec: the characters of an unquoted token.\<close>

definition is_unquoted_char :: "char \<Rightarrow> bool" where
  "is_unquoted_char c \<longleftrightarrow> \<not> is_space c \<and> c \<noteq> CHR '')''"

text \<open>Modelled from the spec: the token of a \<^verbatim>\<open>url(...)\<close> after the opening whitespace,
  "quoted or unquoted": the opening quote if any, the token, the text up to and including
  the closing parenthesis.\<close>

definition match_body :: "string \<Rightarrow> (string \<times> string \<times> string) option" where
  "match_body r =
     (case r of
        [] \<Rightarrow> None
      | q # r2 \<Rightarrow>
          if is_quote q then
            (case dropWhile (\<lambda>c. c \<noteq> q) r2 of
               [] \<Rightarrow> None
             | q' # r4 \<Rightarrow>
                 (case match_close r4 of
                    None \<Rightarrow> None
                  | Some close \<Rightarrow> Some ([q], takeWhile (\<lambda>c. c \<noteq> q) r2, q' # close)))
          else
            (case match_close (dropWhile is_unquoted_char r) of
               None \<Rightarrow> None
             | Some close \<Rightarrow>
                 if takeWhile is_unquoted_char r = [] then None
                 else Some ([], takeWhile is_unquoted_char r, close)))"

text \<open>Modelled from the spec: the pattern for one \<^verbatim>\<open>url(...)\<close> at the head of a text
  (the pattern itself is in the missing \<^verbatim>\<open>lib/value-processor.js\<close>): the text before
  the token, the token, the text after it.\<close>

definition match_url :: "string \<Rightarrow> (string \<times> string \<times> string) option" where
  "match_url s =
     (if take 4 s = ''url('' then
        (case match_body (dropWhile is_space (drop 4 s)) of
           None \<Rightarrow> None
         | Some (opening, body, suf) \<Rightarrow>
             Some (''url('' @ takeWhile is_space (drop 4 s) @ opening, body, suf))
      else None)"

text \<open>Modelled from the spec: "scans the value text for all \<^verbatim>\<open>url(...)\<close> tokens". The
  first argument is the offset of the text that is left, the second the number of
  characters of it that belong to the reference just found.\<close>

fun scan :: "nat \<Rightarrow> nat \<Rightarrow> string \<Rightarrow> segment list" where
  "scan off skip [] = []"
| "scan off (Suc k) (c # cs) = scan (Suc off) k cs"
| "scan off 0 (c # cs) =
     (case match_url (c # cs) of
        Some (pre, body, suf) \<Rightarrow>
          UrlRef pre
            \<lparr> rawText = body, startOffset = off + length pre,
              endOffset = off + length pre + length body, quoted = is_quote (last pre) \<rparr> suf #
          scan (Suc off) (length pre + length body + length suf - 1) cs
      | None \<Rightarrow> Plain [c] # scan (Suc off) 0 cs)"

text \<open>Modelled from the spec: the tokens that the scan of a value finds.\<close>

fun urlTokens :: "segment list \<Rightarrow> UrlToken list" where
  "urlTokens [] = []"
| "urlTokens (Plain s # segs) = urlTokens segs"
| "urlTokens (UrlRef pre tok suf # segs) = tok # urlTokens segs"

text \<open>Modelled from the spec: the text of a segment; "all surrounding text, whitespace, and
  quoting style is preserved".\<close>

fun render_segment :: "segment \<Rightarrow> string" where
  "render_segment (Plain s) = s"
| "render_segment (UrlRef pre tok suf) = pre @ rawText tok @ suf"

text \<open>Modelled from the spec: the value that a list of segments stands for.\<close>

definition render :: "segment list \<Rightarrow> string" where
  "render segs = concat (map render_segment segs)"

text \<open>Modelled from the spec: \<open>dirname(OriginalLocation.absoluteFilePath)\<close>, the path up to
  its last slash.\<close>

definition path_dirname :: "string \<Rightarrow> string" where
  "path_dirname p =
     (let d = rev (drop 1 (dropWhile (\<lambda>c. c \<noteq> CHR ''/'') (rev p)))
      in if d = [] then (if isAbsolutePath p then ''/'' else ''.'') else d)"

text \<open>Modelled from the spec: the Position of a token, "adding its offset within the
  declaration to declarationStartPosition".\<close>

definition tokenPosition :: "Position \<Rightarrow> UrlToken \<Rightarrow> Position" where
  "tokenPosition start tok = \<lparr> line = line start, column = column start + startOffset tok \<rparr>"

text \<open>Modelled from the spec: what the missing Declaration Transformer does with one token.
  Without a source-map at all the token stays and nothing is raised; with one, the index
  is queried, and only if a location is found is the Path Resolver invoked; a token that
  is not mapped or not resolved stays and a soft failure is raised.\<close>

definition transformToken ::
  "ResolutionContext \<Rightarrow> SourceMapping option \<Rightarrow> Position \<Rightarrow> UrlToken \<Rightarrow> UrlToken \<times> soft_failure list" where
  "transformToken ctx index start tok =
     (case index of
        None \<Rightarrow> (tok, [])
      | Some locate \<Rightarrow>
          (case locate (tokenPosition start tok) of
             None \<Rightarrow> (tok, [NotMapped (tokenPosition start tok)])
           | Some location \<Rightarrow>
               (case resolve (path_dirname (absoluteFilePath location)) tok ctx of
                  Unresolved \<Rightarrow> (tok, [NotResolved (rawText tok)])
                | ResolvedPath p \<Rightarrow> (tok \<lparr> rawText := p \<rparr>, []))))"

text \<open>Modelled from the spec: the same for a segment; only the token of a reference can
  change.\<close>

fun transformSegment ::
  "ResolutionContext \<Rightarrow> SourceMapping option \<Rightarrow> Position \<Rightarrow> segment \<Rightarrow> segment \<times> soft_failure list" where
  "transformSegment ctx index start (Plain s) = (Plain s, [])"
| "transformSegment ctx index start (UrlRef pre tok suf) =
     (case transformToken ctx index start tok of (tok', failures) \<Rightarrow> (UrlRef pre tok' suf, failures))"

text \<open>Modelled from the spec: \<open>transform(declarationValue, declarationStartPosition)\<close> of
  section 4.3, the rewritten value and the soft failures raised (the function is what the
  missing \<^verbatim>\<open>lib/value-processor.js\<close> returns).\<close>

definition transform ::
  "ResolutionContext \<Rightarrow> SourceMapping option \<Rightarrow> Position \<Rightarrow> string \<Rightarrow> string \<times> soft_failure list" where
  "transform ctx index start v =
     (let results = map (transformSegment ctx index start) (scan 0 0 v)
      in (render (map fst results), concat (map snd results)))"

subsection \<open>The engine (section 4.4, Transforming)\<close>

text \<open>Modelled from the spec: what the parser of the missing CSS engine hands over, text
  that is not a declaration value, and declaration values with their start positions.\<close>

datatype chunk = Verbatim string | Declaration Position string

text \<open>Modelled from the spec: the text of a chunk in the document.\<close>

fun chunk_text :: "chunk \<Rightarrow> string" where
  "chunk_text (Verbatim s) = s"
| "chunk_text (Declaration start v) = v"

text \<open>Modelled from the spec: the missing CSS engine of \<^verbatim>\<open>lib/engine\<close>, "invokes the
  chosen CSS engine over the full document text, feeding it the Declaration Transformer as
  a callback". The parser and the map that the engine computes are parameters; a document
  that the parser refuses rejects the promise.\<close>

definition engine_spec ::
  "(string \<Rightarrow> jsexn + chunk list) \<Rightarrow> (string \<Rightarrow> 'm) \<Rightarrow> string \<Rightarrow> string \<Rightarrow> string \<Rightarrow>
   ('m, SourceMapping, SourceMapping option \<Rightarrow> Position \<Rightarrow> string \<Rightarrow> string \<times> soft_failure list) engine_params \<Rightarrow>
   'm engine_result" where
  "engine_spec parse mapOf path sourceFile sourceContent params =
     (case parse sourceContent of
        Inl e \<Rightarrow> EngineRejects e
      | Inr chunks \<Rightarrow>
          EngineResolves
            \<lparr> reworked_content =
                concat (map (\<lambda>ch. case ch of
                                    Verbatim s \<Rightarrow> s
                                  | Declaration start v \<Rightarrow>
                                      fst (transformDeclaration params (sourceMapConsumer params) start v))
                            chunks),
              reworked_map = mapOf sourceContent \<rparr>)"

section \<open>Configurations and sample values\<close>

text \<open>The four kinds of misconfiguration: lines 61, 66, 73 and 110.\<close>

definition misconfiguration :: "('m, 'c, 't) env \<Rightarrow> options \<Rightarrow> bool" where
  "misconfiguration env options \<longleftrightarrow>
     attempts_discontinued options \<or> \<not> is_function (join options) \<or>
     (truthy (root options) \<and> \<not> isValidRoot env options) \<or> \<not> isValidEngine env options"

text \<open>None of the conditions of lines 34, 61, 66 and 73 holds.\<close>

definition configurationAccepted :: "('m, 'c, 't) env \<Rightarrow> loader \<Rightarrow> options \<Rightarrow> bool" where
  "configurationAccepted env loader options \<longleftrightarrow>
     \<not> starts_with_dot (loader_context loader) \<and> \<not> attempts_discontinued options \<and>
     is_function (join options) \<and> \<not> (truthy (root options) \<and> \<not> isValidRoot env options)"

text \<open>
  A small world for the examples: a project directory, the two engines of the package, a
  parser of JSON that accepts what begins with a brace, a codec and an index that accept
  every map, and an engine that answers the content as it is.
\<close>

definition sample_env :: "(string, string, unit) env" where
  "sample_env =
     \<lparr> path_resolve =
         (\<lambda>p. case p of [] \<Rightarrow> ''/project''
                        | c # cs \<Rightarrow> if c = CHR ''/'' then p else ''/project/'' @ p),
       path_join = join_with ''/'',
       dirname = ''/node_modules/resolve-url-loader'',
       fs_existsSync =
         (\<lambda>p. p \<in> set [''/project'', ''/project/src'', ''/project/package.json'',
                         ''/node_modules/resolve-url-loader/lib/engine/rework.js'',
                         ''/node_modules/resolve-url-loader/lib/engine/postcss.js'']),
       fs_isDirectory = (\<lambda>p. p \<in> set [''/project'', ''/project/src'']),
       JSON_parse = (\<lambda>s. case s of [] \<Rightarrow> None | c # cs \<Rightarrow> if c = CHR ''{'' then Some s else None),
       adjustSourceMap = (\<lambda>l f m. Inr m),
       SourceMapConsumer = (\<lambda>m. Inr m),
       valueProcessor = (\<lambda>c opts. Inr ()),
       require_engine =
         (\<lambda>p r c ps. EngineResolves \<lparr> reworked_content = c, reworked_map = ''{}'' \<rparr>) \<rparr>"

definition sample_loader :: loader where
  "sample_loader = \<lparr> loader_context = ''/project/src'', resourcePath = ''/project/src/main.css'' \<rparr>"

definition relative_loader :: loader where
  "relative_loader = \<lparr> loader_context = ''./src'', resourcePath = ''./src/main.css'' \<rparr>"

text \<open>Silent configurations with one fault each, and one with a custom join function.\<close>

definition bad_root_options :: options where
  "bad_root_options = (default_options (JBool True)) \<lparr> root := JStr ''/nowhere'', silent := JBool True \<rparr>"

definition bad_engine_options :: options where
  "bad_engine_options = (default_options (JBool True)) \<lparr> engine := ''sass'', silent := JBool True \<rparr>"

definition custom_join_options :: options where
  "custom_join_options = (default_options (JBool False)) \<lparr> attempts := JNum 3, join := JFunction 7 \<rparr>"

text \<open>An error with a stack of one line, and worlds in which the constructor of the
  index throws, the engine rejects, the engine throws, the codec refuses the incoming
  map, and the codec refuses the outgoing map.\<close>

definition unsupported_version :: jsexn where
  "unsupported_version =
     ExError ''Unsupported version: 2''
       (Some (''Error: Unsupported version: 2'' @ newline # ''    at new SourceMapConsumer''))"

definition one_line_error :: jsexn where
  "one_line_error = ExError ''Unclosed block'' (Some ''CssSyntaxError: Unclosed block'')"

definition index_failing_env :: "(string, string, unit) env" where
  "index_failing_env = sample_env \<lparr> SourceMapConsumer := (\<lambda>m. Inl unsupported_version) \<rparr>"

definition rejecting_env :: "(string, string, unit) env" where
  "rejecting_env = sample_env \<lparr> require_engine := (\<lambda>p r c ps. EngineRejects one_line_error) \<rparr>"

definition throwing_env :: "(string, string, unit) env" where
  "throwing_env = sample_env \<lparr> require_engine := (\<lambda>p r c ps. EngineThrows one_line_error) \<rparr>"

definition codec_rejecting_env :: "(string, string, unit) env" where
  "codec_rejecting_env =
     sample_env \<lparr> adjustSourceMap := (\<lambda>l f m. Inl (ExError ''no codec matches the sources'' None)) \<rparr>"

definition codec_failing_env :: "(string, string, unit) env" where
  "codec_failing_env =
     sample_env \<lparr> adjustSourceMap :=
       (\<lambda>l f m. case f of Absolute \<Rightarrow> Inr m | SourceRelative \<Rightarrow> Inl one_line_error) \<rparr>"

text \<open>A source-map that maps every position into \<^verbatim>\<open>/proj/src/a.scss\<close>, and a context
  whose join strategy trusts the first candidate.\<close>

definition sample_index :: SourceMapping where
  "sample_index = (\<lambda>p. Some \<lparr> absoluteFilePath = ''/proj/src/a.scss'', originalLine = 1, originalColumn = 0 \<rparr>)"

definition sample_context :: ResolutionContext where
  "sample_context =
     \<lparr> contextDirectory = ''/project/src'',
       rootDirectory = None,
       includeRootDirectory = False,
       keepQuerySuffix = False,
       emitAbsolute = True,
       joinStrategy = (\<lambda>d p candidates. case candidates of [] \<Rightarrow> None | c # cs \<Rightarrow> Some c),
       relativize = (\<lambda>p. p) \<rparr>"

text \<open>The same world with the engine and the value processor of the specification; its
  parser hands the whole document over as one declaration value.\<close>

definition spec_env ::
  "(string, SourceMapping,
    SourceMapping option \<Rightarrow> Position \<Rightarrow> string \<Rightarrow> string \<times> soft_failure list) env" where
  "spec_env =
     \<lparr> path_resolve = path_resolve sample_env,
       path_join = path_join sample_env,
       dirname = dirname sample_env,
       fs_existsSync = fs_existsSync sample_env,
       fs_isDirectory = fs_isDirectory sample_env,
       JSON_parse = JSON_parse sample_env,
       adjustSourceMap = (\<lambda>l f m. Inr m),
       SourceMapConsumer = (\<lambda>m. Inr sample_index),
       valueProcessor = (\<lambda>c opts. Inr (transform sample_context)),
       require_engine =
         engine_spec (\<lambda>s. Inr [Declaration \<lparr> line = 1, column = 0 \<rparr> s]) (\<lambda>s. ''{}'') \<rparr>"

section \<open>Properties of the loader\<close>

lemmas sample_defs =
  sample_env_def sample_loader_def default_options_def defaultJoin_def
  resolveUrlLoader_def attempts_discontinued_def isValidRoot_def resolvedRoot_def
  isValidEngine_def enginePath_def loadSourceMap_def indexSourceMap_def processAsync_def onSuccess_def onFailure_def
  handleException_def returning_def format_message_def is_word_char_def newline_def
  TypeError_def

lemma handleException_critical:
  "handleException opts content label (ExString s) True =
     Inr ([Error (format_message label [s])], content)"
  by (simp add: handleException_def)

lemma handleException_string:
  "handleException (Some options) content label (ExString s) False =
     Inr (if truthy (fail options) then [Error (format_message label [s])]
          else if \<not> truthy (silent options) then [Warning (format_message label [s])]
          else [], content)"
  by (simp add: handleException_def)

lemma accepted_continues:
  assumes "configurationAccepted env loader options"
  shows \<open>resolveUrlLoader env loader options content sourceMapIn =
          (case loadSourceMap env loader options content sourceMapIn of
             MapFailed r \<Rightarrow> returning True r
           | MapThrown e \<Rightarrow> \<lparr> emitted = [], cacheable = True, completion = Thrown e \<rparr>
           | MapReady absMap consumer \<Rightarrow>
               (case enginePath env options of
                  Some path \<Rightarrow>
                    if fs_existsSync env path
                    then processAsync env loader options content path absMap consumer
                    else returning True (handleException (Some options) content
                           ''loader misconfiguration'' (ExString ''"engine" option is not valid'') True)
                | None \<Rightarrow>
                    returning True (handleException (Some options) content
                      ''loader misconfiguration'' (ExString ''"engine" option is not valid'') True)))\<close>
proof -
  from assms have "\<not> starts_with_dot (loader_context loader)"
    and "\<not> attempts_discontinued options" and "is_function (join options)"
    and "\<not> (truthy (root options) \<and> \<not> isValidRoot env options)"
    by (simp_all add: configurationAccepted_def)
  then show ?thesis
    unfolding resolveUrlLoader_def by (simp only: if_False if_True simp_thms)
qed

lemma parse_failure:
  assumes "s \<noteq> []" and "JSON_parse env s = None"
  shows "loadSourceMap env loader options content (SmString s) =
           MapFailed (handleException (Some options) content ''source-map error''
             (ExString ''cannot parse source-map string (from less-loader?)'') False)"
  using assms by (simp add: loadSourceMap_def)

lemma parse_success:
  assumes "s \<noteq> []" and "JSON_parse env s = Some m"
  shows "loadSourceMap env loader options content (SmString s) =
         loadSourceMap env loader options content (SmObject m)"
  using assms by (simp add: loadSourceMap_def)

lemma codec_rejects:
  assumes "adjustSourceMap env loader Absolute m = Inl (ExError msg stack)"
  shows "loadSourceMap env loader options content (SmObject m) =
           MapFailed (handleException (Some options) content ''source-map error'' (ExString msg) False)"
  using assms by (simp add: loadSourceMap_def indexSourceMap_def)

lemma no_source_map:
  assumes "\<not> sm_truthy sourceMapIn"
  shows "loadSourceMap env loader options content sourceMapIn = MapReady None None"
  using assms by (simp add: loadSourceMap_def)

text \<open>
  What \<^verbatim>\<open>onFailure\<close> does with a rejection whose message can be formatted: the content as
  it came in is delivered, and the report follows \<^verbatim>\<open>fail\<close> and \<^verbatim>\<open>silent\<close>.
\<close>

lemma onFailure_reports:
  assumes "exception_rest error = Inr rest"
  shows "onFailure options content error =
           \<lparr> emitted =
               (if truthy (fail options) then [Error (format_message ''Error in CSS'' rest)]
                else if \<not> truthy (silent options) then [Warning (format_message ''Error in CSS'' rest)]
                else []),
             cacheable = True,
             completion = Delivered content None \<rparr>"
  using assms by (simp add: onFailure_def handleException_def)

text \<open>
  Claim C10. A loader context that begins with a dot ends the call at line 35, whatever the
  options, the source-map and the world are: one error is emitted, also when
  \<^verbatim>\<open>silent\<close> is set, the content is returned as it came in, and \<^verbatim>\<open>cacheable\<close> has
  not been called.
\<close>

theorem relative_context_is_critical:
  assumes "starts_with_dot (loader_context loader)"
  shows "resolveUrlLoader env loader options content sourceMapIn =
           \<lparr> emitted = [Error (format_message ''webpack misconfiguration''
                                 [''loader.context is relative, expected absolute''])],
             cacheable = False,
             completion = Returned content \<rparr>"
  using assms by (simp add: resolveUrlLoader_def handleException_critical returning_def)

theorem relative_context_is_critical_witness:
  "starts_with_dot (loader_context relative_loader) \<and>
   resolveUrlLoader sample_env relative_loader
       ((default_options (JBool True)) \<lparr> silent := JBool True \<rparr>) ''.a { color: red }'' SmAbsent =
     \<lparr> emitted = [Error (''  resolve-url-loader cannot operate: webpack misconfiguration'' @
                          newline # ''  loader.context is relative, expected absolute'')],
       cacheable = False,
       completion = Returned ''.a { color: red }'' \<rparr>"
proof -
  have h: "starts_with_dot (loader_context relative_loader)"
    by (simp add: relative_loader_def)
  from relative_context_is_critical [OF h] h show ?thesis
    by (simp add: format_message_def)
qed

text \<open>
  Claim C1, as amended. A discontinued use of \<^verbatim>\<open>attempts\<close>, a \<^verbatim>\<open>join\<close> that is not a
  function and a \<^verbatim>\<open>root\<close> that is not a directory are fatal for every document, every
  source-map and every value of \<^verbatim>\<open>fail\<close> and \<^verbatim>\<open>silent\<close>: exactly one error is
  emitted and the content is returned as it came in. An invalid engine is fatal in the
  same way when the stage of the incoming source-map (lines 81 to 105), which runs before
  the engine is looked at, ends without a failure.
\<close>

theorem misconfiguration_is_fatal:
  assumes "attempts_discontinued options \<or> \<not> is_function (join options) \<or>
           (truthy (root options) \<and> \<not> isValidRoot env options) \<or>
           (\<not> isValidEngine env options \<and>
            loadSourceMap env loader options content sourceMapIn = MapReady absMap consumer)"
  shows "(\<exists>message. emitted (resolveUrlLoader env loader options content sourceMapIn) = [Error message]) \<and>
         completion (resolveUrlLoader env loader options content sourceMapIn) = Returned content"
  using assms
  by (auto simp add: resolveUrlLoader_def handleException_critical returning_def isValidEngine_def
      split: option.splits)

theorem misconfiguration_is_fatal_witness:
  "(truthy (root bad_root_options) \<and> \<not> isValidRoot sample_env bad_root_options) \<and>
   (\<exists>message. emitted (resolveUrlLoader sample_env sample_loader bad_root_options
        ''.a { color: red }'' (SmString ''not json'')) = [Error message]) \<and>
   completion (resolveUrlLoader sample_env sample_loader bad_root_options
        ''.a { color: red }'' (SmString ''not json'')) = Returned ''.a { color: red }'' \<and>
   (\<not> isValidEngine sample_env bad_engine_options \<and>
    loadSourceMap sample_env sample_loader bad_engine_options ''.a { color: red }'' SmAbsent =
      MapReady None None) \<and>
   (\<exists>message. emitted (resolveUrlLoader sample_env sample_loader bad_engine_options
        ''.a { color: red }'' SmAbsent) = [Error message]) \<and>
   completion (resolveUrlLoader sample_env sample_loader bad_engine_options
        ''.a { color: red }'' SmAbsent) = Returned ''.a { color: red }''"
proof -
  have r: "truthy (root bad_root_options) \<and> \<not> isValidRoot sample_env bad_root_options"
    by (simp add: bad_root_options_def sample_defs)
  have e: "\<not> isValidEngine sample_env bad_engine_options \<and>
           loadSourceMap sample_env sample_loader bad_engine_options ''.a { color: red }'' SmAbsent =
             MapReady None None"
    by (simp add: bad_engine_options_def sample_defs)
  from r have r': "attempts_discontinued bad_root_options \<or>
      \<not> is_function (join bad_root_options) \<or>
      (truthy (root bad_root_options) \<and> \<not> isValidRoot sample_env bad_root_options) \<or>
      (\<not> isValidEngine sample_env bad_root_options \<and>
       loadSourceMap sample_env sample_loader bad_root_options
         ''.a { color: red }'' (SmString ''not json'') = MapReady None None)"
    by blast
  from e have e': "attempts_discontinued bad_engine_options \<or>
      \<not> is_function (join bad_engine_options) \<or>
      (truthy (root bad_engine_options) \<and> \<not> isValidRoot sample_env bad_engine_options) \<or>
      (\<not> isValidEngine sample_env bad_engine_options \<and>
       loadSourceMap sample_env sample_loader bad_engine_options
         ''.a { color: red }'' SmAbsent = MapReady None None)"
    by blast
  from misconfiguration_is_fatal [OF r'] misconfiguration_is_fatal [OF e'] r e
  show ?thesis by blast
qed

text \<open>
  The claim as it stands fails: with an engine that does not exist, \<^verbatim>\<open>silent\<close> set and a
  source-map string that does not parse, line 90 ends the call before line 110 is reached,
  and nothing is emitted.
\<close>

theorem misconfiguration_counterexample:
  "misconfiguration sample_env bad_engine_options \<and>
   emitted (resolveUrlLoader sample_env sample_loader bad_engine_options
       ''.a { color: red }'' (SmString ''not json'')) = []"
  by (simp add: bad_engine_options_def sample_defs misconfiguration_def)

text \<open>
  Claim C6, as amended. The combination that line 61 rejects is a value of \<^verbatim>\<open>attempts\<close>
  other than 1 together with the default join function: one error is emitted, the content
  is returned as it came in, and nothing has been processed (\<^verbatim>\<open>cacheable\<close> has not been
  called). With an absolute loader context the error is the one of line 62.
\<close>

theorem attempts_without_join_is_rejected:
  assumes "attempts options \<noteq> JNum 1" and "join options = defaultJoin"
  shows \<open>(\<exists>message. emitted (resolveUrlLoader env loader options content sourceMapIn) = [Error message]) \<and>
         cacheable (resolveUrlLoader env loader options content sourceMapIn) = False \<and>
         completion (resolveUrlLoader env loader options content sourceMapIn) = Returned content \<and>
         (\<not> starts_with_dot (loader_context loader) \<longrightarrow>
            emitted (resolveUrlLoader env loader options content sourceMapIn) =
              [Error (format_message ''loader misconfiguration''
                        [''"attempts" option now requires "join" function''])])\<close>
  using assms
  by (simp add: resolveUrlLoader_def attempts_discontinued_def handleException_critical returning_def)

theorem attempts_without_join_is_rejected_witness:
  \<open>attempts ((default_options (JBool True)) \<lparr> attempts := JNum 3 \<rparr>) \<noteq> JNum 1 \<and>
   join ((default_options (JBool True)) \<lparr> attempts := JNum 3 \<rparr>) = defaultJoin \<and>
   \<not> starts_with_dot (loader_context sample_loader) \<and>
   resolveUrlLoader sample_env sample_loader ((default_options (JBool True)) \<lparr> attempts := JNum 3 \<rparr>)
       ''.a { color: red }'' SmAbsent =
     \<lparr> emitted = [Error (''  resolve-url-loader cannot operate: loader misconfiguration'' @
                          newline # ''  "attempts" option now requires "join" function'')],
       cacheable = False,
       completion = Returned ''.a { color: red }'' \<rparr>\<close>
  using attempts_without_join_is_rejected
    [of "(default_options (JBool True)) \<lparr> attempts := JNum 3 \<rparr>" sample_env sample_loader
        "''.a { color: red }''" SmAbsent]
  by (simp add: default_options_def sample_loader_def format_message_def outcome.equality)

text \<open>
  The claim as it stands fails: a value of \<^verbatim>\<open>attempts\<close> other than 1 together with a
  custom join function passes every check, and the document is processed.
\<close>

theorem attempts_with_custom_join_counterexample:
  "attempts custom_join_options \<noteq> JNum 1 \<and>
   is_function (join custom_join_options) \<and>
   join custom_join_options \<noteq> defaultJoin \<and>
   resolveUrlLoader sample_env sample_loader custom_join_options ''.a { color: red }'' SmAbsent =
     \<lparr> emitted = [], cacheable = True, completion = Delivered ''.a { color: red }'' None \<rparr>"
  by (simp add: custom_join_options_def sample_defs)

text \<open>
  Claim C5, as amended. Under a configuration that passes the checks of lines 34 to 75, a
  source-map given as a non-empty string is parsed as JSON. If it parses, the call goes on
  as with the parsed map. If it does not, or if the codec rejects a map with an instance of
  \<^verbatim>\<open>Error\<close>, the call ends there and returns the content as it came in; the failure is reported under
  the label \<^verbatim>\<open>source-map error\<close>, as an error when \<^verbatim>\<open>fail\<close> is set, else as a warning,
  and not at all when \<^verbatim>\<open>silent\<close> is set and \<^verbatim>\<open>fail\<close> is not.
\<close>

theorem source_map_error_follows_fail_and_silent:
  assumes "configurationAccepted env loader options" and "s \<noteq> []"
  shows "(JSON_parse env s = None \<longrightarrow>
            resolveUrlLoader env loader options content (SmString s) =
              \<lparr> emitted =
                  (let message = format_message ''source-map error''
                                   [''cannot parse source-map string (from less-loader?)'']
                   in if truthy (fail options) then [Error message]
                      else if \<not> truthy (silent options) then [Warning message]
                      else []),
                cacheable = True,
                completion = Returned content \<rparr>) \<and>
         (\<forall>m. JSON_parse env s = Some m \<longrightarrow>
            resolveUrlLoader env loader options content (SmString s) =
            resolveUrlLoader env loader options content (SmObject m)) \<and>
         (\<forall>m msg stack. adjustSourceMap env loader Absolute m = Inl (ExError msg stack) \<longrightarrow>
            resolveUrlLoader env loader options content (SmObject m) =
              \<lparr> emitted =
                  (let message = format_message ''source-map error'' [msg]
                   in if truthy (fail options) then [Error message]
                      else if \<not> truthy (silent options) then [Warning message]
                      else []),
                cacheable = True,
                completion = Returned content \<rparr>)"
proof (intro conjI allI impI)
  assume "JSON_parse env s = None"
  with assms show "resolveUrlLoader env loader options content (SmString s) =
      \<lparr> emitted =
          (let message = format_message ''source-map error''
                           [''cannot parse source-map string (from less-loader?)'']
           in if truthy (fail options) then [Error message]
              else if \<not> truthy (silent options) then [Warning message]
              else []),
        cacheable = True,
        completion = Returned content \<rparr>"
    by (simp add: accepted_continues parse_failure handleException_string returning_def Let_def)
next
  fix m assume "JSON_parse env s = Some m"
  with assms show "resolveUrlLoader env loader options content (SmString s) =
      resolveUrlLoader env loader options content (SmObject m)"
    by (simp add: accepted_continues parse_success)
next
  fix m msg stack assume "adjustSourceMap env loader Absolute m = Inl (ExError msg stack)"
  with assms show "resolveUrlLoader env loader options content (SmObject m) =
      \<lparr> emitted =
          (let message = format_message ''source-map error'' [msg]
           in if truthy (fail options) then [Error message]
              else if \<not> truthy (silent options) then [Warning message]
              else []),
        cacheable = True,
        completion = Returned content \<rparr>"
    by (simp add: accepted_continues codec_rejects handleException_string returning_def Let_def)
qed

theorem source_map_error_follows_fail_and_silent_witness:
  \<open>configurationAccepted sample_env sample_loader (default_options (JBool True)) \<and>
   JSON_parse sample_env ''not json'' = None \<and>
   resolveUrlLoader sample_env sample_loader (default_options (JBool True))
       ''.a { color: red }'' (SmString ''not json'') =
     \<lparr> emitted = [Warning (''  resolve-url-loader cannot operate: source-map error'' @
                            newline # ''  cannot parse source-map string (from less-loader?)'')],
       cacheable = True,
       completion = Returned ''.a { color: red }'' \<rparr> \<and>
   JSON_parse sample_env ''{ "version": 3 }'' = Some ''{ "version": 3 }'' \<and>
   resolveUrlLoader sample_env sample_loader (default_options (JBool True))
       ''.a { color: red }'' (SmString ''{ "version": 3 }'') =
   resolveUrlLoader sample_env sample_loader (default_options (JBool True))
       ''.a { color: red }'' (SmObject ''{ "version": 3 }'') \<and>
   configurationAccepted codec_rejecting_env sample_loader (default_options (JBool True)) \<and>
   adjustSourceMap codec_rejecting_env sample_loader Absolute ''{}'' =
     Inl (ExError ''no codec matches the sources'' None) \<and>
   resolveUrlLoader codec_rejecting_env sample_loader (default_options (JBool True))
       ''.a { color: red }'' (SmObject ''{}'') =
     \<lparr> emitted = [Warning (''  resolve-url-loader cannot operate: source-map error'' @
                            newline # ''  no codec matches the sources'')],
       cacheable = True,
       completion = Returned ''.a { color: red }'' \<rparr>\<close>
proof -
  have a: "configurationAccepted sample_env sample_loader (default_options (JBool True))"
    by (simp add: configurationAccepted_def sample_defs)
  have b: "configurationAccepted codec_rejecting_env sample_loader (default_options (JBool True))"
    by (simp add: configurationAccepted_def codec_rejecting_env_def sample_defs)
  have n: "''{}'' \<noteq> []"
    by simp
  have p: "JSON_parse sample_env ''not json'' = None"
    by (simp add: sample_env_def)
  have q: \<open>JSON_parse sample_env ''{ "version": 3 }'' = Some ''{ "version": 3 }''\<close>
    by (simp add: sample_env_def)
  have c: "adjustSourceMap codec_rejecting_env sample_loader Absolute ''{}'' =
             Inl (ExError ''no codec matches the sources'' None)"
    by (simp add: codec_rejecting_env_def)
  from source_map_error_follows_fail_and_silent [OF a, of "''not json''" "''.a { color: red }''"]
    source_map_error_follows_fail_and_silent [OF a, of \<open>''{ "version": 3 }''\<close> "''.a { color: red }''"]
    source_map_error_follows_fail_and_silent [OF b n, of "''.a { color: red }''"]
    p q c a b
  show ?thesis by (simp add: default_options_def format_message_def)
qed

text \<open>
  The claim as it stands fails: under the default options a source-map string that does
  not parse is reported as a warning, not as an error, and with \<^verbatim>\<open>silent\<close> set it is
  not reported at all.
\<close>

theorem unparseable_source_map_counterexample:
  "JSON_parse sample_env ''not json'' = None \<and>
   emitted (resolveUrlLoader sample_env sample_loader (default_options (JBool True))
       ''.a { color: red }'' (SmString ''not json'')) =
     [Warning (''  resolve-url-loader cannot operate: source-map error'' @
                newline # ''  cannot parse source-map string (from less-loader?)'')] \<and>
   emitted (resolveUrlLoader sample_env sample_loader
       ((default_options (JBool True)) \<lparr> silent := JBool True \<rparr>)
       ''.a { color: red }'' (SmString ''not json'')) = []"
  by (simp add: sample_defs)

text \<open>
  Claim C8. When the configuration passes the checks, the incoming source-map is ready
  and the engine resolves with \<open>reworked\<close>: if \<^verbatim>\<open>options.sourceMap\<close> is set and the codec
  adjusts the engine's map to the format \<^verbatim>\<open>sourceRelative\<close>, the callback gets the
  reworked content and the adjusted map; if it is not set, the callback gets the reworked
  content and no map. Nothing is emitted in either case.
\<close>

theorem success_delivers_content_and_requested_map:
  assumes "configurationAccepted env loader options"
    and "loadSourceMap env loader options content sourceMapIn = MapReady absMap consumer"
    and "enginePath env options = Some path" and "fs_existsSync env path"
    and "valueProcessor env (loader_context loader) options = Inr transformer"
    and "require_engine env path (resourcePath loader) content
           \<lparr> outputSourceMap = truthy (sourceMap options),
             transformDeclaration = transformer,
             absSourceMap = absMap,
             sourceMapConsumer = consumer \<rparr> = EngineResolves reworked"
  shows "(truthy (sourceMap options) \<longrightarrow>
            (\<forall>finalMap. adjustSourceMap env loader SourceRelative (reworked_map reworked) = Inr finalMap \<longrightarrow>
               resolveUrlLoader env loader options content sourceMapIn =
                 \<lparr> emitted = [], cacheable = True,
                   completion = Delivered (reworked_content reworked) (Some finalMap) \<rparr>)) \<and>
         (\<not> truthy (sourceMap options) \<longrightarrow>
            resolveUrlLoader env loader options content sourceMapIn =
              \<lparr> emitted = [], cacheable = True,
                completion = Delivered (reworked_content reworked) None \<rparr>)"
proof -
  have "resolveUrlLoader env loader options content sourceMapIn =
          onSuccess env loader options content reworked"
    using assms by (simp add: accepted_continues processAsync_def)
  then show ?thesis by (simp add: onSuccess_def)
qed

theorem success_delivers_content_and_requested_map_witness:
  "resolveUrlLoader sample_env sample_loader (default_options (JBool True))
       ''.a { color: red }'' (SmString ''{}'') =
     \<lparr> emitted = [], cacheable = True, completion = Delivered ''.a { color: red }'' (Some ''{}'') \<rparr> \<and>
   resolveUrlLoader sample_env sample_loader (default_options (JBool False))
       ''.a { color: red }'' (SmString ''{}'') =
     \<lparr> emitted = [], cacheable = True, completion = Delivered ''.a { color: red }'' None \<rparr>"
proof -
  have a: "configurationAccepted sample_env sample_loader (default_options b)" for b
    by (simp add: configurationAccepted_def sample_defs)
  have m: "loadSourceMap sample_env sample_loader (default_options b) ''.a { color: red }''
             (SmString ''{}'') = MapReady (Some ''{}'') (Some ''{}'')" for b
    by (simp add: sample_defs)
  have p: "enginePath sample_env (default_options b) =
             Some ''/node_modules/resolve-url-loader/lib/engine/rework.js''" for b
    by (simp add: sample_defs)
  have x: "fs_existsSync sample_env ''/node_modules/resolve-url-loader/lib/engine/rework.js''"
    by (simp add: sample_env_def)
  have v: "valueProcessor sample_env (loader_context sample_loader) (default_options b) = Inr ()" for b
    by (simp add: sample_env_def)
  have e: "require_engine sample_env ''/node_modules/resolve-url-loader/lib/engine/rework.js''
             (resourcePath sample_loader) ''.a { color: red }''
             \<lparr> outputSourceMap = truthy (sourceMap (default_options b)),
               transformDeclaration = (),
               absSourceMap = Some ''{}'',
               sourceMapConsumer = Some ''{}'' \<rparr> =
           EngineResolves \<lparr> reworked_content = ''.a { color: red }'', reworked_map = ''{}'' \<rparr>" for b
    by (simp add: sample_env_def)
  have f: "adjustSourceMap sample_env sample_loader SourceRelative ''{}'' = Inr ''{}''"
    by (simp add: sample_env_def)
  from success_delivers_content_and_requested_map [OF a m p x v e, of "JBool True"]
    success_delivers_content_and_requested_map [OF a m p x v e, of "JBool False"] f
  show ?thesis by (simp add: default_options_def)
qed

text \<open>
  What does hold for a rejection of the engine: when the message of the rejection can be
  formatted, the content is delivered as it came in and the report follows \<^verbatim>\<open>fail\<close>
  and \<^verbatim>\<open>silent\<close>.
\<close>

lemma engine_rejection_is_soft:
  assumes "configurationAccepted env loader options"
    and "loadSourceMap env loader options content sourceMapIn = MapReady absMap consumer"
    and "enginePath env options = Some path" and "fs_existsSync env path"
    and "valueProcessor env (loader_context loader) options = Inr transformer"
    and "require_engine env path (resourcePath loader) content
           \<lparr> outputSourceMap = truthy (sourceMap options),
             transformDeclaration = transformer,
             absSourceMap = absMap,
             sourceMapConsumer = consumer \<rparr> = EngineRejects error"
    and "exception_rest error = Inr rest"
  shows "resolveUrlLoader env loader options content sourceMapIn =
           \<lparr> emitted =
               (if truthy (fail options) then [Error (format_message ''Error in CSS'' rest)]
                else if \<not> truthy (silent options) then [Warning (format_message ''Error in CSS'' rest)]
                else []),
             cacheable = True,
             completion = Delivered content None \<rparr>"
proof -
  have "resolveUrlLoader env loader options content sourceMapIn = onFailure options content error"
    using assms by (simp add: accepted_continues processAsync_def)
  then show ?thesis by (simp add: onFailure_reports [OF assms(7)])
qed

text \<open>
  Claim C4 fails on the code. The constructor of the index (line 104) is outside the
  \<^verbatim>\<open>try\<close> blocks of lines 86 to 101: what it throws leaves the loader, nothing is
  emitted and no content is returned. And when the codec refuses the outgoing map with an
  error whose stack has one line, line 151 reads \<^verbatim>\<open>.trim()\<close> of \<^verbatim>\<open>undefined\<close> inside
  \<^verbatim>\<open>onFailure\<close>: the promise ends rejected and the callback is never called.
\<close>

theorem failures_escape_the_loader:
  \<open>resolveUrlLoader index_failing_env sample_loader (default_options (JBool True))
       ''.a { color: red }'' (SmString ''{ "version": 2 }'') =
     \<lparr> emitted = [], cacheable = True, completion = Thrown unsupported_version \<rparr> \<and>
   resolveUrlLoader codec_failing_env sample_loader (default_options (JBool True))
       ''.a { color: red }'' SmAbsent =
     \<lparr> emitted = [], cacheable = True, completion = Unhandled TypeError \<rparr>\<close>
  by (simp add: index_failing_env_def codec_failing_env_def one_line_error_def
      unsupported_version_def sample_defs)

text \<open>
  Claim C7 fails on the code. An engine that rejects with an error whose stack has one
  line makes \<^verbatim>\<open>handleException\<close> throw at line 151: nothing is reported and no content
  is delivered. An engine that throws before it returns is not inside the promise chain
  of lines 116 to 124: its exception leaves the loader.
\<close>

theorem engine_failure_is_not_always_soft:
  "resolveUrlLoader rejecting_env sample_loader (default_options (JBool False))
       ''.a { color: red }'' SmAbsent =
     \<lparr> emitted = [], cacheable = True, completion = Unhandled TypeError \<rparr> \<and>
   resolveUrlLoader throwing_env sample_loader (default_options (JBool False))
       ''.a { color: red }'' SmAbsent =
     \<lparr> emitted = [], cacheable = True, completion = Thrown one_line_error \<rparr>"
  by (simp add: rejecting_env_def throwing_env_def one_line_error_def sample_defs)

section \<open>Properties of the resolution core\<close>

lemma take4: "take 4 s = ''url('' \<Longrightarrow> s = ''url('' @ drop 4 s"
  using append_take_drop_id [of 4 s] by (simp del: append_take_drop_id)

lemma split_while: "dropWhile P xs = y # ys \<Longrightarrow> xs = takeWhile P xs @ y # ys"
  using takeWhile_dropWhile_id [of P xs] by simp

lemma match_close_prefix:
  assumes "match_close r = Some close"
  shows "\<exists>rest. r = close @ rest"
proof (cases "dropWhile is_space r")
  case Nil
  with assms show ?thesis by (simp add: match_close_def)
next
  case (Cons p rest)
  with assms have "p = CHR '')''" and "close = takeWhile is_space r @ '')''"
    by (simp_all add: match_close_def split: if_splits)
  with split_while [OF Cons] have "r = close @ rest" by simp
  then show ?thesis ..
qed

lemma match_body_prefix:
  assumes "match_body r = Some (opening, body, suf)"
  shows "\<exists>rest. r = opening @ body @ suf @ rest"
proof (cases r)
  case Nil
  with assms show ?thesis by (simp add: match_body_def)
next
  case (Cons q r2)
  show ?thesis
  proof (cases "is_quote q")
    case True
    show ?thesis
    proof (cases "dropWhile (\<lambda>c. c \<noteq> q) r2")
      case Nil
      with assms Cons True show ?thesis by (simp add: match_body_def)
    next
      case d: (Cons q' r4)
      show ?thesis
      proof (cases "match_close r4")
        case None
        with assms Cons True d show ?thesis by (simp add: match_body_def)
      next
        case (Some close)
        with assms Cons True d have
          eqs: "opening = [q]" "body = takeWhile (\<lambda>c. c \<noteq> q) r2" "suf = q' # close"
          by (simp_all add: match_body_def)
        from match_close_prefix [OF Some] obtain rest where r4: "r4 = close @ rest" ..
        have "r2 = body @ q' # r4" using split_while [OF d] eqs(2) by simp
        with Cons r4 have "r = [q] @ body @ (q' # close) @ rest" by simp
        then have "r = opening @ body @ suf @ rest" by (simp only: eqs(1,3))
        then show ?thesis ..
      qed
    qed
  next
    case False
    show ?thesis
    proof (cases "match_close (dropWhile is_unquoted_char r)")
      case None
      with assms Cons False show ?thesis by (simp add: match_body_def)
    next
      case (Some close)
      with assms Cons False have
        eqs: "opening = []" "body = takeWhile is_unquoted_char r" "suf = close"
        by (simp_all add: match_body_def split: if_splits)
      from match_close_prefix [OF Some] obtain rest
        where r3: "dropWhile is_unquoted_char r = close @ rest" ..
      have "r = body @ dropWhile is_unquoted_char r" by (simp add: eqs(2))
      then have "r = [] @ body @ close @ rest" by (simp add: r3)
      then have "r = opening @ body @ suf @ rest" by (simp only: eqs(1,3))
      then show ?thesis ..
    qed
  qed
qed

lemma match_url_prefix:
  assumes "match_url s = Some (pre, body, suf)"
  shows "\<exists>rest. s = pre @ body @ suf @ rest"
proof -
  define ws where "ws = takeWhile is_space (drop 4 s)"
  from assms have t: "take 4 s = ''url(''"
    by (simp add: match_url_def split: if_splits)
  with assms obtain opn where
    b: "match_body (dropWhile is_space (drop 4 s)) = Some (opn, body, suf)" and
    pre: "pre = ''url('' @ ws @ opn"
    unfolding ws_def
    by (cases "match_body (dropWhile is_space (drop 4 s))") (auto simp add: match_url_def)
  from match_body_prefix [OF b] obtain rest
    where r: "dropWhile is_space (drop 4 s) = opn @ body @ suf @ rest" ..
  have "drop 4 s = ws @ dropWhile is_space (drop 4 s)" by (simp add: ws_def)
  then have "drop 4 s = ws @ opn @ body @ suf @ rest" by (simp only: r)
  then have "''url('' @ drop 4 s = pre @ body @ suf @ rest" by (simp add: pre)
  with take4 [OF t] have "s = pre @ body @ suf @ rest" by simp
  then show ?thesis ..
qed

lemma match_url_nonempty:
  assumes "match_url s = Some (pre, body, suf)"
  shows "pre \<noteq> []"
  using assms
  by (cases "match_body (dropWhile is_space (drop 4 s))") (auto simp add: match_url_def split: if_splits)

lemma render_Cons: "render (x # xs) = render_segment x @ render xs"
  by (simp add: render_def)

text \<open>The scan loses nothing: the segments of a value, put together again, are the value.\<close>

lemma render_scan: "render (scan off k s) = drop k s"
proof (induction off k s rule: scan.induct)
  case (1 off skip)
  then show ?case by (simp add: render_def)
next
  case (2 off k c cs)
  then show ?case by simp
next
  case (3 off c cs)
  show ?case
  proof (cases "match_url (c # cs)")
    case None
    with 3 show ?thesis by (simp add: render_Cons)
  next
    case (Some t)
    obtain pre body suf where t: "t = (pre, body, suf)" by (cases t) auto
    from match_url_prefix [of "c # cs" pre body suf] Some t
    obtain rest where r: "c # cs = (pre @ body @ suf) @ rest" by auto
    from match_url_nonempty [of "c # cs" pre body suf] Some t
    have "pre @ body @ suf \<noteq> []" by simp
    then obtain w where w: "pre @ body @ suf = c # w"
      using r by (cases "pre @ body @ suf") auto
    then have cs: "cs = w @ rest" using r by simp
    have len: "length pre + length body + length suf - 1 = length w"
      using arg_cong [OF w, of length] by simp
    have "render (scan (Suc off) (length pre + length body + length suf - 1) cs) =
            drop (length pre + length body + length suf - 1) cs"
      by (rule 3(2) [OF Some, of pre "(body, suf)" body suf]) (simp_all add: t)
    then have "render (scan (Suc off) (length pre + length body + length suf - 1) cs) = rest"
      by (simp only: len cs append_eq_conv_conj drop_append diff_self_eq_0 drop_0 drop_all order_refl append_Nil)
    moreover have "render_segment (UrlRef pre
            \<lparr> rawText = body, startOffset = off + length pre,
              endOffset = off + length pre + length body, quoted = is_quote (last pre) \<rparr> suf) = c # w"
      using w by simp
    ultimately show ?thesis
      using Some t cs by (simp add: render_Cons del: render_segment.simps)
  qed
qed

lemma transformToken_absolute:
  assumes "isAbsoluteUrl (rawText tok) \<or> isAbsolutePath (rawText tok)"
  shows "fst (transformToken ctx index start tok) = tok"
  using assms by (auto simp add: transformToken_def resolve_def split: option.splits)

lemma transformSegments_absolute:
  assumes "\<forall>tok \<in> set (urlTokens segs). isAbsoluteUrl (rawText tok) \<or> isAbsolutePath (rawText tok)"
  shows "map (\<lambda>seg. fst (transformSegment ctx index start seg)) segs = segs"
  using assms
proof (induction segs)
  case Nil
  then show ?case by simp
next
  case (Cons seg segs)
  show ?case
  proof (cases seg)
    case (Plain s)
    with Cons show ?thesis by simp
  next
    case (UrlRef pre tok suf)
    with Cons.prems have "fst (transformToken ctx index start tok) = tok"
      by (simp add: transformToken_absolute)
    then have "fst (transformSegment ctx index start seg) = seg"
      unfolding UrlRef by (cases "transformToken ctx index start tok") simp
    moreover have "map (\<lambda>seg. fst (transformSegment ctx index start seg)) segs = segs"
      using Cons UrlRef by simp
    ultimately show ?thesis by simp
  qed
qed

lemma transformSegment_without_map: "transformSegment ctx None start seg = (seg, [])"
  by (cases seg) (simp_all add: transformToken_def)

lemma transform_without_map: "transform ctx None start v = (v, [])"
  using render_scan [of 0 0 v]
  by (simp add: transform_def comp_def transformSegment_without_map)

lemma transform_absolute:
  assumes "\<forall>tok \<in> set (urlTokens (scan 0 0 v)). isAbsoluteUrl (rawText tok) \<or> isAbsolutePath (rawText tok)"
  shows "fst (transform ctx index start v) = v"
  using render_scan [of 0 0 v] transformSegments_absolute [OF assms]
  by (simp add: transform_def comp_def)

text \<open>
  Claim C3. A token whose text is an absolute URL or an absolute path comes out of the
  Declaration Transformer as it went in, with or without a source-map (\<open>index\<close> is any
  index or none), mapped or not; and a value all of whose tokens are of this kind comes
  out unchanged as a whole.
\<close>

theorem absolute_tokens_are_never_rewritten:
  "(isAbsoluteUrl (rawText tok) \<or> isAbsolutePath (rawText tok) \<longrightarrow>
      fst (transformToken ctx index start tok) = tok) \<and>
   ((\<forall>t \<in> set (urlTokens (scan 0 0 v)). isAbsoluteUrl (rawText t) \<or> isAbsolutePath (rawText t)) \<longrightarrow>
      fst (transform ctx index start v) = v)"
  by (simp add: transformToken_absolute transform_absolute)

theorem absolute_tokens_are_never_rewritten_witness:
  "urlTokens (scan 0 0 ''url(http://a.org/b.png) url( /c.png )'') =
     [\<lparr> rawText = ''http://a.org/b.png'', startOffset = 4, endOffset = 22, quoted = False \<rparr>,
      \<lparr> rawText = ''/c.png'', startOffset = 29, endOffset = 35, quoted = False \<rparr>] \<and>
   isAbsoluteUrl ''http://a.org/b.png'' \<and> isAbsolutePath ''/c.png'' \<and>
   fst (transformToken sample_context (Some sample_index) \<lparr> line = 3, column = 10 \<rparr>
          \<lparr> rawText = ''http://a.org/b.png'', startOffset = 4, endOffset = 22, quoted = False \<rparr>) =
     \<lparr> rawText = ''http://a.org/b.png'', startOffset = 4, endOffset = 22, quoted = False \<rparr> \<and>
   fst (transform sample_context (Some sample_index) \<lparr> line = 3, column = 10 \<rparr>
          ''url(http://a.org/b.png) url( /c.png )'') = ''url(http://a.org/b.png) url( /c.png )'' \<and>
   fst (transform sample_context (Some sample_index) \<lparr> line = 3, column = 10 \<rparr>
          ''url(img/x.png) url(data:a)'') = ''url(/proj/src/img/x.png) url(data:a)''"
proof -
  have s: "urlTokens (scan 0 0 ''url(http://a.org/b.png) url( /c.png )'') =
     [\<lparr> rawText = ''http://a.org/b.png'', startOffset = 4, endOffset = 22, quoted = False \<rparr>,
      \<lparr> rawText = ''/c.png'', startOffset = 29, endOffset = 35, quoted = False \<rparr>]"
    by code_simp
  have a: "isAbsoluteUrl ''http://a.org/b.png''" and b: "isAbsolutePath ''/c.png''"
    by code_simp+
  have m: "fst (transform sample_context (Some sample_index) \<lparr> line = 3, column = 10 \<rparr>
          ''url(img/x.png) url(data:a)'') = ''url(/proj/src/img/x.png) url(data:a)''"
    by code_simp
  from absolute_tokens_are_never_rewritten
    [of "\<lparr> rawText = ''http://a.org/b.png'', startOffset = 4, endOffset = 22, quoted = False \<rparr>"
        sample_context "Some sample_index" "\<lparr> line = 3, column = 10 \<rparr>"
        "''url(http://a.org/b.png) url( /c.png )''"]
    s a b m
  show ?thesis by simp
qed

text \<open>
  Claim C2. Under a configuration that passes the checks and names an engine that exists,
  with the engine and the value processor of the specification, a parser that hands the
  document over without loss, and a codec that accepts the outgoing map when one is asked
  for: a call with no source-map delivers the content as it came in and emits nothing; and
  without a source-map the Declaration Transformer changes no value and raises no soft
  failure.
\<close>

theorem no_source_map_leaves_content_unchanged:
  assumes "configurationAccepted env loader options" and "isValidEngine env options"
    and "\<not> sm_truthy sourceMapIn"
    and "valueProcessor env (loader_context loader) options = Inr (transform ctx)"
    and "require_engine env = engine_spec parse mapOf"
    and "parse content = Inr chunks" and "concat (map chunk_text chunks) = content"
    and "truthy (sourceMap options) \<longrightarrow>
           adjustSourceMap env loader SourceRelative (mapOf content) = Inr finalMap"
  shows "resolveUrlLoader env loader options content sourceMapIn =
           \<lparr> emitted = [], cacheable = True,
             completion = Delivered content (if truthy (sourceMap options) then Some finalMap else None) \<rparr> \<and>
         (\<forall>start v. transform ctx None start v = (v, []))"
proof -
  from assms(2) obtain path where
    p: "enginePath env options = Some path" and x: "fs_existsSync env path"
    by (auto simp add: isValidEngine_def split: option.splits)
  have c: "map (\<lambda>ch. case ch of Verbatim s \<Rightarrow> s
                           | Declaration start v \<Rightarrow> fst (transform ctx None start v)) chunks =
           map chunk_text chunks"
    by (rule map_cong [OF refl]) (simp add: transform_without_map split: chunk.splits)
  have e: "require_engine env path (resourcePath loader) content
             \<lparr> outputSourceMap = truthy (sourceMap options),
               transformDeclaration = transform ctx,
               absSourceMap = None,
               sourceMapConsumer = None \<rparr> =
           EngineResolves \<lparr> reworked_content = content, reworked_map = mapOf content \<rparr>"
    by (simp add: assms(5,6,7) engine_spec_def c)
  have "resolveUrlLoader env loader options content sourceMapIn =
          onSuccess env loader options content
            \<lparr> reworked_content = content, reworked_map = mapOf content \<rparr>"
    by (simp add: accepted_continues [OF assms(1)] no_source_map [OF assms(3)] p x
        processAsync_def assms(4) e)
  with assms(8) show ?thesis
    by (simp add: onSuccess_def transform_without_map)
qed

theorem no_source_map_leaves_content_unchanged_witness:
  "configurationAccepted spec_env sample_loader (default_options (JBool True)) \<and>
   isValidEngine spec_env (default_options (JBool True)) \<and>
   resolveUrlLoader spec_env sample_loader (default_options (JBool True))
       ''a { b: url(img/x.png) }'' SmAbsent =
     \<lparr> emitted = [], cacheable = True,
       completion = Delivered ''a { b: url(img/x.png) }'' (Some ''{}'') \<rparr> \<and>
   transform sample_context None \<lparr> line = 1, column = 0 \<rparr> ''a { b: url(img/x.png) }'' =
     (''a { b: url(img/x.png) }'', [])"
proof -
  have a: "configurationAccepted spec_env sample_loader (default_options (JBool True))"
    by (simp add: configurationAccepted_def spec_env_def sample_defs)
  have v: "isValidEngine spec_env (default_options (JBool True))"
    by (simp add: spec_env_def sample_defs)
  have n: "\<not> sm_truthy (SmAbsent :: string source_map_arg)"
    by simp
  have t: "valueProcessor spec_env (loader_context sample_loader) (default_options (JBool True)) =
             Inr (transform sample_context)"
    by (simp add: spec_env_def)
  have r: "require_engine spec_env =
             engine_spec (\<lambda>s. Inr [Declaration \<lparr> line = 1, column = 0 \<rparr> s]) (\<lambda>s. ''{}'')"
    by (simp add: spec_env_def)
  have p: "(\<lambda>s. Inr [Declaration \<lparr> line = 1, column = 0 \<rparr> s]) ''a { b: url(img/x.png) }'' =
             (Inr [Declaration \<lparr> line = 1, column = 0 \<rparr> ''a { b: url(img/x.png) }''] :: jsexn + chunk list)"
    by simp
  have l: "concat (map chunk_text [Declaration \<lparr> line = 1, column = 0 \<rparr> ''a { b: url(img/x.png) }'']) =
             ''a { b: url(img/x.png) }''"
    by simp
  have f: "truthy (sourceMap (default_options (JBool True))) \<longrightarrow>
             adjustSourceMap spec_env sample_loader SourceRelative ((\<lambda>s. ''{}'') ''a { b: url(img/x.png) }'') =
               Inr ''{}''"
    by (simp add: spec_env_def)
  from no_source_map_leaves_content_unchanged [OF a v n t r p l f] a v
  show ?thesis by (simp add: default_options_def)
qed

text \<open>
  Claim C9. A second pass of the Declaration Transformer that is given no source-map, over
  what a first pass has put out, puts out the same again, whatever the first pass was
  given; the tokens that the first pass resolved, like every other token, stay as they
  are.
\<close>

theorem second_pass_without_map_is_a_no_op:
  "fst (transform ctx2 None start2 (fst (transform ctx1 index start1 v))) =
   fst (transform ctx1 index start1 v)"
  by (simp add: transform_without_map)

end
